theory Spec2Isabelle
  imports Main "HOL-Library.Sublist" "HOL-Library.Multiset"
begin

section \<open>Data model\<close>

text \<open>
  A paper as the crawlers build it and as \<open>insert_paper\<close> reads it: a Python dict with the
  eight keys below (field \<open>p_title\<close> is the key \<open>"title"\<close>, and so on). \<open>None\<close> is
  Python's \<open>None\<close>; \<open>insert_paper\<close> reads every key with \<open>dict.get\<close>, so a missing key is
  the same \<open>None\<close> there. Every dict that reaches
  \<open>_deduplicate_papers\<close> was built by a crawler with all eight keys, so the subscript
  \<open>paper["title"]\<close> does not raise.
\<close>

record paper =
  p_title :: "string option"
  p_authors :: "string option"
  p_conference :: "string option"
  p_year :: "int option"
  p_abstract :: "string option"
  p_pdf_url :: "string option"
  p_paper_url :: "string option"
  p_doi :: "string option"

type_synonym paper_key = "string option \<times> string option \<times> int option"

section \<open>Deduplication (main.py, \<open>CrawlerManager._deduplicate_papers\<close>)\<close>

text \<open>
  The key the loop computes for each paper:
  \<open>(paper["title"], paper["conference"], paper["year"])\<close>.
\<close>

definition key_of :: "paper \<Rightarrow> paper_key" where
  "key_of p = (p_title p, p_conference p, p_year p)"

text \<open>
  The \<open>for\<close> loop over \<open>papers\<close>, with its two local variables \<open>seen\<close> (a set of keys)
  and \<open>unique\<close> (a list, extended with \<open>append\<close>).
\<close>

fun deduplicate_loop :: "paper list \<Rightarrow> paper_key set \<Rightarrow> paper list \<Rightarrow> paper list" where
  "deduplicate_loop [] seen unique = unique"
| "deduplicate_loop (paper # papers) seen unique =
     (let key = key_of paper in
      if key \<notin> seen then deduplicate_loop papers (insert key seen) (unique @ [paper])
      else deduplicate_loop papers seen unique)"

definition deduplicate_papers :: "paper list \<Rightarrow> paper list" where
  "deduplicate_papers papers = deduplicate_loop papers {} []"

text \<open>
  The specification's wording, for comparison with the loop: the subsequence of first
  occurrences, that is, the records at those positions \<open>i\<close> whose key is not the key of a
  record at an earlier position, in input order.
\<close>

definition first_occurrences :: "paper list \<Rightarrow> paper list" where
  "first_occurrences ps =
     map (nth ps) (filter (\<lambda>i. key_of (ps ! i) \<notin> key_of ` set (take i ps)) [0..<length ps])"

section \<open>Storage (src/models/database.py, \<open>DatabaseManager\<close>)\<close>

text \<open>
  The two tables of \<open>init_database\<close>. A column declared \<open>NOT NULL\<close> has the plain type, a
  nullable column an option type. Timestamps are abstract clock readings; only their
  order is used (\<open>ORDER BY created_at\<close>, \<open>MAX(created_at)\<close>). Each table is the list of
  its rows in insertion order, with the counter that \<open>AUTOINCREMENT\<close> keeps for it (the
  largest id handed out so far).
\<close>

type_synonym timestamp = nat

record paper_row =
  row_id :: nat
  row_title :: string
  row_authors :: "string option"
  row_conference :: string
  row_year :: int
  row_abstract :: "string option"
  row_pdf_url :: "string option"
  row_paper_url :: "string option"
  row_doi :: "string option"
  row_downloaded :: bool
  row_local_path :: "string option"
  row_created_at :: timestamp
  row_updated_at :: timestamp

record crawl_row =
  h_id :: nat
  h_conference :: string
  h_year :: int
  h_papers_count :: nat
  h_status :: string
  h_error_message :: "string option"
  h_created_at :: timestamp

record database =
  papers :: "paper_row list"
  papers_seq :: nat
  crawl_history :: "crawl_row list"
  crawl_history_seq :: nat

text \<open>\<open>init_database\<close> on a fresh file: both tables exist and are empty.\<close>

definition init_database :: database where
  "init_database = \<lparr>papers = [], papers_seq = 0, crawl_history = [], crawl_history_seq = 0\<rparr>"

text \<open>
  The Python exceptions that occur in the model. The \<open>sqlite3\<close> module binds a Python
  \<open>int\<close> parameter as a 64-bit signed integer and raises \<open>OverflowError\<close> for a value
  outside that range, before the statement runs; the engine raises \<open>IntegrityError\<close>
  when a \<open>NOT NULL\<close> constraint fails, and \<open>OperationalError\<close> when it cannot execute a
  statement at all (for instance, another connection holds the lock). \<open>insert_paper\<close> catches
  every exception of its statement, so whether the engine fails there is an input of the
  model; the other operations catch nothing, and for them the engine is taken to work.
\<close>

datatype py_error = RequestException | OverflowError | IntegrityError | OperationalError

definition sqlite_int_ok :: "int \<Rightarrow> bool" where
  "sqlite_int_ok i = (- (2 ^ 63) \<le> i \<and> i < 2 ^ 63)"

definition bind_int :: "int option \<Rightarrow> bool" where
  "bind_int v = (case v of None \<Rightarrow> True | Some i \<Rightarrow> sqlite_int_ok i)"

definition row_key :: "paper_row \<Rightarrow> string \<times> string \<times> int" where
  "row_key r = (row_title r, row_conference r, row_year r)"

subsection \<open>\<open>insert_paper\<close>\<close>

text \<open>
  The statement of \<open>insert_paper\<close>,
  \<^verbatim>\<open>INSERT INTO papers (title, authors, conference, year, abstract, pdf_url, paper_url, doi,
  updated_at) VALUES (?, ...) ON CONFLICT(title, conference, year) DO UPDATE SET
  authors = excluded.authors, abstract = excluded.abstract, pdf_url = excluded.pdf_url,
  paper_url = excluded.paper_url, doi = excluded.doi, updated_at = excluded.updated_at\<close>,
  followed by \<open>commit\<close>. What the outside contributes to one execution is a record:
  \<open>clock_sqlite\<close> is the engine's clock (\<open>CURRENT_TIMESTAMP\<close>, the default of \<open>created_at\<close>),
  \<open>clock_python\<close> is \<open>datetime.now()\<close>, the ninth parameter, and \<open>engine_fails\<close> tells
  whether the engine fails to execute the statement. The columns the statement does not
  name take their defaults in a new row: a fresh id, \<open>downloaded = 0\<close>,
  \<open>local_path\<close> null. The id is generated before the uniqueness check, so the counter
  advances on the update path as well (SQLite documents that ids of an \<open>AUTOINCREMENT\<close>
  column increase but need not be consecutive).
\<close>

record statement_env =
  clock_sqlite :: timestamp
  clock_python :: timestamp
  engine_fails :: bool

definition conflict_update :: "timestamp \<Rightarrow> paper \<Rightarrow> paper_row \<Rightarrow> paper_row" where
  "conflict_update now excluded r =
     r\<lparr>row_authors := p_authors excluded, row_abstract := p_abstract excluded,
       row_pdf_url := p_pdf_url excluded, row_paper_url := p_paper_url excluded,
       row_doi := p_doi excluded, row_updated_at := now\<rparr>"

definition papers_upsert :: "statement_env \<Rightarrow> database \<Rightarrow> paper \<Rightarrow> py_error + database" where
  "papers_upsert stm db paper_data =
     (if \<not> bind_int (p_year paper_data) then Inl OverflowError
      else if engine_fails stm then Inl OperationalError
      else case (p_title paper_data, p_conference paper_data, p_year paper_data) of
        (Some t, Some c, Some y) \<Rightarrow>
          if (t, c, y) \<in> set (map row_key (papers db))
          then Inr (db\<lparr>papers :=
                         map (\<lambda>r. if row_key r = (t, c, y)
                                   then conflict_update (clock_python stm) paper_data r
                                   else r) (papers db),
                       papers_seq := Suc (papers_seq db)\<rparr>)
          else Inr (db\<lparr>papers := papers db @
                         [\<lparr>row_id = Suc (papers_seq db), row_title = t,
                           row_authors = p_authors paper_data, row_conference = c, row_year = y,
                           row_abstract = p_abstract paper_data, row_pdf_url = p_pdf_url paper_data,
                           row_paper_url = p_paper_url paper_data, row_doi = p_doi paper_data,
                           row_downloaded = False, row_local_path = None,
                           row_created_at = clock_sqlite stm,
                           row_updated_at = clock_python stm\<rparr>],
                       papers_seq := Suc (papers_seq db)\<rparr>)
      | _ \<Rightarrow> Inl IntegrityError)"

text \<open>
  \<open>insert_paper\<close>: \<open>try\<close> the statement and \<open>return True\<close>; \<open>except Exception\<close> prints and
  returns \<open>False\<close>, and the connection is closed without a commit, so the store is as before.
\<close>

definition insert_paper :: "statement_env \<Rightarrow> database \<Rightarrow> paper \<Rightarrow> bool \<times> database" where
  "insert_paper stm db paper_data =
     (case papers_upsert stm db paper_data of
        Inr db' \<Rightarrow> (True, db')
      | Inl e \<Rightarrow> (False, db))"

text \<open>
  \<open>insert_papers_batch\<close>: the loop with its counter \<open>success_count\<close>. \<open>stms i\<close> is what the
  outside contributes to the \<open>i\<close>-th call of \<open>insert_paper\<close>.
\<close>

fun insert_papers_loop ::
  "(nat \<Rightarrow> statement_env) \<Rightarrow> nat \<Rightarrow> paper list \<Rightarrow> nat \<Rightarrow> database \<Rightarrow> nat \<times> database" where
  "insert_papers_loop stms i [] success_count db = (success_count, db)"
| "insert_papers_loop stms i (paper # rest) success_count db =
     (case insert_paper (stms i) db paper of
        (True, db') \<Rightarrow> insert_papers_loop stms (Suc i) rest (success_count + 1) db'
      | (False, db') \<Rightarrow> insert_papers_loop stms (Suc i) rest success_count db')"

definition insert_papers_batch ::
  "(nat \<Rightarrow> statement_env) \<Rightarrow> database \<Rightarrow> paper list \<Rightarrow> nat \<times> database" where
  "insert_papers_batch stms db paper_list = insert_papers_loop stms 0 paper_list 0 db"

subsection \<open>\<open>get_papers\<close>\<close>

text \<open>Python's truth value of an optional string and of an optional integer.\<close>

definition truthy_str :: "string option \<Rightarrow> bool" where
  "truthy_str v = (case v of None \<Rightarrow> False | Some s \<Rightarrow> s \<noteq> [])"

definition truthy_int :: "int option \<Rightarrow> bool" where
  "truthy_int v = (case v of None \<Rightarrow> False | Some i \<Rightarrow> i \<noteq> 0)"

text \<open>
  The query is assembled from \<open>SELECT * FROM papers WHERE 1=1\<close>: a condition is added for
  \<open>conference\<close> and for \<open>year\<close> when the argument is truthy, then \<open>ORDER BY created_at DESC\<close>,
  then \<open>LIMIT\<close> when \<open>limit\<close> is truthy. \<open>year\<close> is a bound parameter (64 bits or
  \<open>OverflowError\<close>); \<open>limit\<close> is written into the query text, where a negative limit means
  no limit and a literal beyond 64 bits fails with "datatype mismatch" (an
  \<open>IntegrityError\<close>). SQL leaves the order of rows with equal \<open>created_at\<close> open; here they
  come in reverse insertion order.
\<close>

definition order_by_created_at_desc :: "paper_row list \<Rightarrow> paper_row list" where
  "order_by_created_at_desc rows = rev (sort_key row_created_at rows)"

definition get_papers ::
  "database \<Rightarrow> string option \<Rightarrow> int option \<Rightarrow> int option \<Rightarrow> py_error + paper_row list" where
  "get_papers db conference year limit =
     (let rows = papers db;
          rows = (if truthy_str conference
                  then filter (\<lambda>r. Some (row_conference r) = conference) rows else rows);
          rows = (if truthy_int year
                  then filter (\<lambda>r. Some (row_year r) = year) rows else rows);
          rows = order_by_created_at_desc rows
      in if truthy_int year \<and> \<not> bind_int year then Inl OverflowError
         else if truthy_int limit
         then (case limit of
                 Some l \<Rightarrow> if \<not> sqlite_int_ok l then Inl IntegrityError
                           else if l < 0 then Inr rows else Inr (take (nat l) rows)
               | None \<Rightarrow> Inr rows)
         else Inr rows)"

subsection \<open>\<open>log_crawl_history\<close>\<close>

text \<open>
  One \<open>INSERT INTO crawl_history\<close> and a commit; nothing is caught here, so a failure of
  the statement is raised to the caller and no row is written.
\<close>

definition log_crawl_history ::
  "timestamp \<Rightarrow> database \<Rightarrow> string \<Rightarrow> int \<Rightarrow> nat \<Rightarrow> string \<Rightarrow> string option
     \<Rightarrow> py_error + database" where
  "log_crawl_history current_timestamp db conference year papers_count status error_message =
     (if \<not> sqlite_int_ok year then Inl OverflowError
      else Inr (db\<lparr>crawl_history := crawl_history db @
                     [\<lparr>h_id = Suc (crawl_history_seq db), h_conference = conference,
                       h_year = year, h_papers_count = papers_count, h_status = status,
                       h_error_message = error_message, h_created_at = current_timestamp\<rparr>],
                   crawl_history_seq := Suc (crawl_history_seq db)\<rparr>))"

subsection \<open>\<open>get_statistics\<close>\<close>

record statistics =
  total_papers :: nat
  by_conference :: "string \<rightharpoonup> nat"
  last_update :: "timestamp option"

text \<open>\<open>SELECT conference, COUNT(*) FROM papers GROUP BY conference\<close>: one pair per conference.\<close>

definition group_by_conference :: "paper_row list \<Rightarrow> (string \<times> nat) list" where
  "group_by_conference rows =
     map (\<lambda>c. (c, length (filter (\<lambda>r. row_conference r = c) rows)))
       (remdups (map row_conference rows))"

text \<open>\<open>SELECT MAX(created_at) FROM papers\<close>: null on an empty table.\<close>

definition max_created_at :: "paper_row list \<Rightarrow> timestamp option" where
  "max_created_at rows =
     (case rows of [] \<Rightarrow> None
      | r # rs \<Rightarrow> Some (fold max (map row_created_at rs) (row_created_at r)))"

definition get_statistics :: "database \<Rightarrow> statistics" where
  "get_statistics db =
     \<lparr>total_papers = length (papers db),
      by_conference = map_of (group_by_conference (papers db)),
      last_update = max_created_at (papers db)\<rparr>"

text \<open>
  What the schema holds of every state the operations reach: \<open>UNIQUE(title, conference,
  year)\<close>, the primary key, ids not above the counter, years within 64 bits.
\<close>

definition wf_database :: "database \<Rightarrow> bool" where
  "wf_database db =
     (distinct (map row_key (papers db)) \<and> distinct (map row_id (papers db)) \<and>
      list_all (\<lambda>r. row_id r \<le> papers_seq db \<and> sqlite_int_ok (row_year r)) (papers db))"

section \<open>Fetching (src/crawlers/base.py, \<open>BaseCrawler\<close>)\<close>

text \<open>
  The network is outside the program. \<open>requests.get\<close> followed by \<open>raise_for_status\<close>
  either gives a response, of which only \<open>response.text\<close> is used, or raises a
  \<open>RequestException\<close>. Which of the two happens is given by a transport: the outcome of the
  \<open>n\<close>-th request of the run (counted from 0) when it asks for \<open>url\<close>. What the program does
  to the outside is recorded as a trace of events: requests and \<open>time.sleep\<close> calls, with
  durations in seconds.
\<close>

datatype event = is_Request: Request string | Sleep nat

datatype http_result = Response string | Failure

type_synonym transport = "string \<Rightarrow> nat \<Rightarrow> http_result"

definition requests_made :: "event list \<Rightarrow> nat" where
  "requests_made trace = length (filter is_Request trace)"

text \<open>
  The \<open>crawler\<close> section of the configuration and the attributes that
  \<open>BaseCrawler.__init__\<close> reads from it with \<open>config.get(key, default)\<close>; \<open>None\<close> is an absent
  key.
\<close>

record crawler_config =
  request_timeout :: "nat option"
  cfg_retry_times :: "int option"
  delay_between_requests :: "nat option"

record base_crawler =
  conference_name :: string
  timeout :: nat
  retry_times :: int
  delay :: nat

definition BaseCrawler_init :: "string \<Rightarrow> crawler_config \<Rightarrow> base_crawler" where
  "BaseCrawler_init name config =
     \<lparr>conference_name = name,
      timeout = (case request_timeout config of None \<Rightarrow> 30 | Some t \<Rightarrow> t),
      retry_times = (case cfg_retry_times config of None \<Rightarrow> 3 | Some n \<Rightarrow> n),
      delay = (case delay_between_requests config of None \<Rightarrow> 1 | Some d \<Rightarrow> d)\<rparr>"

text \<open>Python's \<open>range(n)\<close>: empty when \<open>n \<le> 0\<close>.\<close>

definition range_int :: "int \<Rightarrow> nat list" where
  "range_int n = [0..<nat n]"

text \<open>
  \<open>fetch_page\<close>: the loop \<open>for attempt in range(self.retry_times)\<close>. A response ends it with
  the politeness sleep and \<open>return response.text\<close>; a \<open>RequestException\<close> is followed by
  the back-off sleep \<open>2**attempt\<close> when \<open>attempt < self.retry_times - 1\<close> and is raised again
  otherwise; when the loop ends without either, the function returns \<open>""\<close>.
\<close>

fun fetch_attempts ::
  "base_crawler \<Rightarrow> transport \<Rightarrow> string \<Rightarrow> nat list \<Rightarrow> event list
     \<Rightarrow> (py_error + string) \<times> event list" where
  "fetch_attempts self net url [] trace = (Inr [], trace)"
| "fetch_attempts self net url (attempt # rest) trace =
     (case net url (requests_made trace) of
        Response text \<Rightarrow> (Inr text, trace @ [Request url, Sleep (delay self)])
      | Failure \<Rightarrow>
          if int attempt < retry_times self - 1
          then fetch_attempts self net url rest (trace @ [Request url, Sleep (2 ^ attempt)])
          else (Inl RequestException, trace @ [Request url]))"

definition fetch_page ::
  "base_crawler \<Rightarrow> transport \<Rightarrow> string \<Rightarrow> event list \<Rightarrow> (py_error + string) \<times> event list" where
  "fetch_page self net url trace = fetch_attempts self net url (range_int (retry_times self)) trace"

text \<open>
  The specification's wording, for comparison with the loop: \<open>k\<close> failed attempts at \<open>url\<close>,
  each followed by a wait of \<open>2 ^ attempt_index\<close> seconds.
\<close>

definition failed_attempts :: "string \<Rightarrow> nat \<Rightarrow> event list" where
  "failed_attempts url k = concat (map (\<lambda>attempt. [Request url, Sleep (2 ^ attempt)]) [0..<k])"

section \<open>Page parsers (src/crawlers/base.py, src/crawlers/conference_crawlers.py)\<close>

text \<open>Python string operations: \<open>str(i)\<close> of an integer, \<open>needle in s\<close>, \<open>sep.join(xs)\<close>.\<close>

definition digit_char :: "nat \<Rightarrow> char" where
  "digit_char d = ''0123456789'' ! d"

fun str_nat :: "nat \<Rightarrow> string" where
  "str_nat n = (if n < 10 then [digit_char n] else str_nat (n div 10) @ [digit_char (n mod 10)])"

declare str_nat.simps [simp del]

definition str_int :: "int \<Rightarrow> string" where
  "str_int i = (if i < 0 then CHR ''-'' # str_nat (nat (- i)) else str_nat (nat i))"

fun contains :: "string \<Rightarrow> string \<Rightarrow> bool" where
  "contains needle [] = (needle = [])"
| "contains needle (c # cs) = (prefix needle (c # cs) \<or> contains needle cs)"

fun join :: "string \<Rightarrow> string list \<Rightarrow> string" where
  "join sep [] = []"
| "join sep [x] = x"
| "join sep (x # y # ys) = x @ sep @ join sep (y # ys)"

text \<open>
  The HTML library is outside the program as well. A page is seen through the queries the
  crawlers make: \<open>soup.find_all\<close> gives the list of items of a page, and an item is the
  record of the answers to the queries its parser makes on it. A text is the result of
  \<open>get_text(strip=True)\<close> on the tag found, \<open>None\<close> when \<open>find\<close> finds no tag; an href is the
  attribute of the tag found, \<open>None\<close> when there is no tag or no attribute.
\<close>

record dblp_entry =
  dblp_title :: "string option"
  dblp_author_names :: "string option list"
  dblp_ee_hrefs :: "string option list"
  dblp_doi_href :: "string option"

record ndss_item =
  ndss_h4 :: "string option"
  ndss_authors :: "string option"
  ndss_pdf_href :: "string option"

record usenix_item =
  usenix_heading :: "string option"
  usenix_authors :: "string option"
  usenix_body :: "string option"
  usenix_presentation_href :: "string option"

record sp_item =
  sp_title :: "string option"
  sp_authors :: "string option"
  sp_pdf_href :: "string option"

record html_library =
  li_entry :: "string \<Rightarrow> dblp_entry list"
  div_paper_ndss :: "string \<Rightarrow> ndss_item list"
  div_views_row :: "string \<Rightarrow> usenix_item list"
  div_paper_sp :: "string \<Rightarrow> sp_item list"

subsection \<open>\<open>DBLPCrawler\<close>\<close>

text \<open>
  \<open>_parse_entry\<close>: no title, no paper. The authors are the names found, joined with
  \<open>", "\<close>; \<open>pdf_url\<close> is the first \<open>ee\<close> link (a missing href counting as \<open>""\<close>) that contains
  \<open>".pdf"\<close>; \<open>paper_url\<close> is the href of the first \<open>ee\<close> link; \<open>doi\<close> is the href of the link the
  library finds for \<open>"doi.org"\<close>.
\<close>

definition dblp_parse_entry :: "base_crawler \<Rightarrow> dblp_entry \<Rightarrow> int \<Rightarrow> paper option" where
  "dblp_parse_entry self entry year =
     (if \<not> truthy_str (dblp_title entry) then None
      else Some \<lparr>p_title = dblp_title entry,
                  p_authors = Some (join '', '' (List.map_filter (\<lambda>a. a) (dblp_author_names entry))),
                  p_conference = Some (conference_name self),
                  p_year = Some year,
                  p_abstract = None,
                  p_pdf_url = find (contains ''.pdf'')
                                (map (\<lambda>h. case h of None \<Rightarrow> [] | Some s \<Rightarrow> s) (dblp_ee_hrefs entry)),
                  p_paper_url = (case dblp_ee_hrefs entry of [] \<Rightarrow> None | h # _ \<Rightarrow> h),
                  p_doi = dblp_doi_href entry\<rparr>)"

definition dblp_url :: "string \<Rightarrow> int \<Rightarrow> string option" where
  "dblp_url name year =
     (if name = ''NDSS'' then Some (''https://dblp.org/db/conf/ndss/ndss'' @ str_int year @ ''.html'')
      else if name = ''USENIX Security''
      then Some (''https://dblp.org/db/conf/uss/uss'' @ str_int year @ ''.html'')
      else if name = ''CCS'' then Some (''https://dblp.org/db/conf/ccs/ccs'' @ str_int year @ ''.html'')
      else if name = ''S&P'' then Some (''https://dblp.org/db/conf/sp/sp'' @ str_int year @ ''.html'')
      else None)"

text \<open>
  \<open>crawl\<close>: an unsupported conference gives the empty list without a fetch; an exception
  of \<open>fetch_page\<close> is caught and gives the empty list.
\<close>

definition dblp_crawl ::
  "base_crawler \<Rightarrow> transport \<Rightarrow> html_library \<Rightarrow> int \<Rightarrow> event list \<Rightarrow> paper list \<times> event list" where
  "dblp_crawl self net lib year trace =
     (case dblp_url (conference_name self) year of
        None \<Rightarrow> ([], trace)
      | Some url \<Rightarrow>
          (case fetch_page self net url trace of
             (Inr html, trace') \<Rightarrow>
               (List.map_filter (\<lambda>entry. dblp_parse_entry self entry year) (li_entry lib html), trace')
           | (Inl e, trace') \<Rightarrow> ([], trace')))"

subsection \<open>\<open>NDSSCrawler\<close>\<close>

definition ndss_parse_paper :: "ndss_item \<Rightarrow> int \<Rightarrow> paper option" where
  "ndss_parse_paper item year =
     (if truthy_str (ndss_h4 item)
      then Some \<lparr>p_title = ndss_h4 item, p_authors = ndss_authors item,
                  p_conference = Some ''NDSS'', p_year = Some year, p_abstract = None,
                  p_pdf_url = ndss_pdf_href item, p_paper_url = None, p_doi = None\<rparr>
      else None)"

definition ndss_crawl ::
  "base_crawler \<Rightarrow> transport \<Rightarrow> html_library \<Rightarrow> int \<Rightarrow> event list \<Rightarrow> paper list \<times> event list" where
  "ndss_crawl self net lib year trace =
     (case fetch_page self net
             (''https://www.ndss-symposium.org/ndss'' @ str_int year @ ''/accepted-papers/'') trace of
        (Inr html, trace') \<Rightarrow>
          (List.map_filter (\<lambda>item. ndss_parse_paper item year) (div_paper_ndss lib html), trace')
      | (Inl e, trace') \<Rightarrow> ([], trace'))"

subsection \<open>\<open>USENIXSecurityCrawler\<close>\<close>

definition usenix_parse_paper :: "usenix_item \<Rightarrow> int \<Rightarrow> paper option" where
  "usenix_parse_paper item year =
     (if truthy_str (usenix_heading item)
      then Some \<lparr>p_title = usenix_heading item, p_authors = usenix_authors item,
                  p_conference = Some ''USENIX Security'', p_year = Some year,
                  p_abstract = usenix_body item, p_pdf_url = None,
                  p_paper_url = (if truthy_str (usenix_presentation_href item)
                                 then map_option (\<lambda>h. ''https://www.usenix.org'' @ h)
                                        (usenix_presentation_href item)
                                 else None),
                  p_doi = None\<rparr>
      else None)"

definition usenix_crawl ::
  "base_crawler \<Rightarrow> transport \<Rightarrow> html_library \<Rightarrow> int \<Rightarrow> event list \<Rightarrow> paper list \<times> event list" where
  "usenix_crawl self net lib year trace =
     (case fetch_page self net
             (''https://www.usenix.org/conference/usenixsecurity'' @ str_int (year mod 100)
                @ ''/technical-sessions'') trace of
        (Inr html, trace') \<Rightarrow>
          (List.map_filter (\<lambda>item. usenix_parse_paper item year) (div_views_row lib html), trace')
      | (Inl e, trace') \<Rightarrow> ([], trace'))"

subsection \<open>\<open>CCSCrawler\<close> and \<open>SPCrawler\<close>\<close>

definition ccs_crawl ::
  "base_crawler \<Rightarrow> transport \<Rightarrow> html_library \<Rightarrow> int \<Rightarrow> event list \<Rightarrow> paper list \<times> event list" where
  "ccs_crawl self net lib year trace = ([], trace)"

definition sp_parse_paper :: "sp_item \<Rightarrow> int \<Rightarrow> paper option" where
  "sp_parse_paper item year =
     (if truthy_str (sp_title item)
      then Some \<lparr>p_title = sp_title item, p_authors = sp_authors item,
                  p_conference = Some ''S&P'', p_year = Some year, p_abstract = None,
                  p_pdf_url = sp_pdf_href item, p_paper_url = None, p_doi = None\<rparr>
      else None)"

definition sp_crawl ::
  "base_crawler \<Rightarrow> transport \<Rightarrow> html_library \<Rightarrow> int \<Rightarrow> event list \<Rightarrow> paper list \<times> event list" where
  "sp_crawl self net lib year trace =
     (case fetch_page self net
             (''https://www.ieee-security.org/TC/SP'' @ str_int year @ ''/program-papers.html'') trace of
        (Inr html, trace') \<Rightarrow>
          (List.map_filter (\<lambda>item. sp_parse_paper item year) (div_paper_sp lib html), trace')
      | (Inl e, trace') \<Rightarrow> ([], trace'))"

subsection \<open>Dispatch\<close>

text \<open>
  A crawler object is its class and its attributes; \<open>crawler.crawl(year)\<close> runs the method
  of the class. Every class catches the exceptions of its own fetch, so the call returns
  a list; the result type leaves room for the exception that the manager is prepared to
  catch.
\<close>

datatype crawler =
  DBLPCrawler base_crawler
| NDSSCrawler base_crawler
| USENIXSecurityCrawler base_crawler
| CCSCrawler base_crawler
| SPCrawler base_crawler

fun crawl ::
  "crawler \<Rightarrow> transport \<Rightarrow> html_library \<Rightarrow> int \<Rightarrow> event list
     \<Rightarrow> (py_error + paper list) \<times> event list" where
  "crawl (DBLPCrawler self) net lib year trace =
     (case dblp_crawl self net lib year trace of (ps, trace') \<Rightarrow> (Inr ps, trace'))"
| "crawl (NDSSCrawler self) net lib year trace =
     (case ndss_crawl self net lib year trace of (ps, trace') \<Rightarrow> (Inr ps, trace'))"
| "crawl (USENIXSecurityCrawler self) net lib year trace =
     (case usenix_crawl self net lib year trace of (ps, trace') \<Rightarrow> (Inr ps, trace'))"
| "crawl (CCSCrawler self) net lib year trace =
     (case ccs_crawl self net lib year trace of (ps, trace') \<Rightarrow> (Inr ps, trace'))"
| "crawl (SPCrawler self) net lib year trace =
     (case sp_crawl self net lib year trace of (ps, trace') \<Rightarrow> (Inr ps, trace'))"

section \<open>The manager (main.py, \<open>CrawlerManager\<close>)\<close>

text \<open>The dictionary \<open>self.crawlers\<close> that \<open>__init__\<close> builds, and \<open>self.crawlers.get(name, [])\<close>.\<close>

definition crawlers :: "crawler_config \<Rightarrow> (string \<times> crawler list) list" where
  "crawlers crawler_config =
     [(''NDSS'', [DBLPCrawler (BaseCrawler_init ''NDSS'' crawler_config),
                  NDSSCrawler (BaseCrawler_init ''NDSS'' crawler_config)]),
      (''USENIX Security'',
         [DBLPCrawler (BaseCrawler_init ''USENIX Security'' crawler_config),
          USENIXSecurityCrawler (BaseCrawler_init ''USENIX Security'' crawler_config)]),
      (''CCS'', [DBLPCrawler (BaseCrawler_init ''CCS'' crawler_config)]),
      (''S&P'', [DBLPCrawler (BaseCrawler_init ''S&P'' crawler_config),
                 SPCrawler (BaseCrawler_init ''S&P'' crawler_config)])]"

definition crawlers_get :: "crawler_config \<Rightarrow> string \<Rightarrow> crawler list" where
  "crawlers_get crawler_config name =
     (case map_of (crawlers crawler_config) name of None \<Rightarrow> [] | Some cs \<Rightarrow> cs)"

text \<open>
  The first loop of \<open>crawl_conference\<close>: every crawler is run, its papers are appended to
  \<open>all_papers\<close>, and an exception of a crawler is logged and skipped.
\<close>

fun run_crawlers ::
  "transport \<Rightarrow> html_library \<Rightarrow> crawler list \<Rightarrow> int \<Rightarrow> paper list \<Rightarrow> event list
     \<Rightarrow> paper list \<times> event list" where
  "run_crawlers net lib [] year all_papers trace = (all_papers, trace)"
| "run_crawlers net lib (crawler # rest) year all_papers trace =
     (case crawl crawler net lib year trace of
        (Inr ps, trace') \<Rightarrow> run_crawlers net lib rest year (all_papers @ ps) trace'
      | (Inl e, trace') \<Rightarrow> run_crawlers net lib rest year all_papers trace')"

text \<open>
  The world outside one call of \<open>crawl_conference\<close>: the transport, the HTML library, what
  the outside contributes to each insert of the batch, and the engine's clock when the
  history row is written. The state it works on is the database and the trace.
\<close>

record environment =
  http :: transport
  bs4 :: html_library
  insert_env :: "nat \<Rightarrow> statement_env"
  history_clock :: timestamp

text \<open>
  \<open>crawl_conference\<close>: crawl, deduplicate, then either save the batch and log its count
  with the default status \<open>"success"\<close>, or log count 0 with status \<open>"empty"\<close>. An exception
  of \<open>log_crawl_history\<close> is raised to the caller; what the batch wrote before stays.
\<close>

definition crawl_conference ::
  "crawler_config \<Rightarrow> environment \<Rightarrow> string \<Rightarrow> int \<Rightarrow> database \<times> event list
     \<Rightarrow> (py_error + unit) \<times> database \<times> event list" where
  "crawl_conference crawler_config env name year state =
     (case run_crawlers (http env) (bs4 env) (crawlers_get crawler_config name) year []
             (snd state) of
        (all_papers, trace') \<Rightarrow>
          (let unique_papers = deduplicate_papers all_papers in
           if unique_papers \<noteq> []
           then (case insert_papers_batch (insert_env env) (fst state) unique_papers of
                   (saved_count, db') \<Rightarrow>
                     (case log_crawl_history (history_clock env) db' name year saved_count
                             ''success'' None of
                        Inr db'' \<Rightarrow> (Inr (), db'', trace')
                      | Inl e \<Rightarrow> (Inl e, db', trace')))
           else (case log_crawl_history (history_clock env) (fst state) name year 0
                         ''empty'' None of
                   Inr db'' \<Rightarrow> (Inr (), db'', trace')
                 | Inl e \<Rightarrow> (Inl e, fst state, trace'))))"

section \<open>Properties of deduplication\<close>

lemma deduplicate_loop_append:
  "deduplicate_loop (ps @ qs) seen unique =
     deduplicate_loop qs (seen \<union> key_of ` set ps) (deduplicate_loop ps seen unique)"
  by (induction ps arbitrary: seen unique) (simp_all add: Let_def insert_absorb)

lemma deduplicate_papers_Nil: "deduplicate_papers [] = []"
  by (simp add: deduplicate_papers_def)

lemma deduplicate_papers_snoc:
  "deduplicate_papers (ps @ [p]) =
     (if key_of p \<in> key_of ` set ps then deduplicate_papers ps else deduplicate_papers ps @ [p])"
  by (simp add: deduplicate_papers_def deduplicate_loop_append)

lemma first_occurrences_Nil: "first_occurrences [] = []"
  by (simp add: first_occurrences_def)

lemma first_occurrences_snoc:
  "first_occurrences (ps @ [p]) =
     (if key_of p \<in> key_of ` set ps then first_occurrences ps else first_occurrences ps @ [p])"
proof -
  let ?n = "length ps"
  let ?P = "\<lambda>qs i. key_of (qs ! i) \<notin> key_of ` set (take i qs)"
  have old: "filter (?P (ps @ [p])) [0..<?n] = filter (?P ps) [0..<?n]"
    by (rule filter_cong) (simp_all add: nth_append)
  have sel: "map (nth (ps @ [p])) (filter (?P ps) [0..<?n]) = map (nth ps) (filter (?P ps) [0..<?n])"
    by (rule map_cong) (simp_all add: nth_append)
  have last: "map (nth (ps @ [p])) (filter (?P (ps @ [p])) [?n]) =
      (if key_of p \<in> key_of ` set ps then [] else [p])"
    by simp
  have "first_occurrences (ps @ [p]) =
      map (nth (ps @ [p])) (filter (?P (ps @ [p])) ([0..<?n] @ [?n]))"
    by (simp add: first_occurrences_def)
  also have "\<dots> = map (nth (ps @ [p])) (filter (?P (ps @ [p])) [0..<?n]) @
      map (nth (ps @ [p])) (filter (?P (ps @ [p])) [?n])"
    by (simp only: filter_append map_append)
  also have "\<dots> = first_occurrences ps @ (if key_of p \<in> key_of ` set ps then [] else [p])"
    by (simp only: old sel last first_occurrences_def)
  finally show ?thesis
    by simp
qed

lemma deduplicate_papers_first_occurrences: "deduplicate_papers ps = first_occurrences ps"
  by (induction ps rule: rev_induct)
     (simp_all add: deduplicate_papers_Nil first_occurrences_Nil
        deduplicate_papers_snoc first_occurrences_snoc)

lemma deduplicate_papers_keys: "key_of ` set (deduplicate_papers ps) = key_of ` set ps"
  by (induction ps rule: rev_induct)
     (auto simp: deduplicate_papers_Nil deduplicate_papers_snoc)


lemma deduplicate_papers_distinct: "distinct (map key_of (deduplicate_papers ps))"
proof (induction ps rule: rev_induct)
  case Nil
  show ?case by (simp add: deduplicate_papers_Nil)
next
  case (snoc p ps)
  have "key_of p \<notin> key_of ` set ps \<Longrightarrow> key_of p \<notin> key_of ` set (deduplicate_papers ps)"
    by (simp add: deduplicate_papers_keys)
  with snoc show ?case
    by (simp add: deduplicate_papers_snoc)
qed

lemma deduplicate_papers_subseq: "subseq (deduplicate_papers ps) ps"
proof (induction ps rule: rev_induct)
  case Nil
  show ?case by (simp add: deduplicate_papers_Nil)
next
  case (snoc p ps)
  have drop: "subseq (deduplicate_papers ps) (ps @ [p])"
    using snoc by (simp add: subseq_rev_drop_many)
  show ?case
    using snoc drop by (simp add: deduplicate_papers_snoc)
qed

lemma deduplicate_papers_fixed:
  "distinct (map key_of ps) \<Longrightarrow> deduplicate_papers ps = ps"
  by (induction ps rule: rev_induct)
     (auto simp: deduplicate_papers_Nil deduplicate_papers_snoc)

section \<open>Properties of the storage\<close>

lemma filter_distinct_key:
  "distinct (map f xs) \<Longrightarrow> x \<in> set xs \<Longrightarrow> filter (\<lambda>y. f y = f x) xs = [x]"
proof (induction xs)
  case Nil
  then show ?case by simp
next
  case (Cons a xs)
  show ?case
  proof (cases "a = x")
    case True
    have "filter (\<lambda>y. f y = f x) xs = []"
      using Cons.prems True by (auto simp: filter_empty_conv intro: rev_image_eqI)
    then show ?thesis using True by simp
  next
    case False
    then have "x \<in> set xs" using Cons.prems by simp
    moreover have "f a \<noteq> f x" using Cons.prems \<open>x \<in> set xs\<close> by auto
    ultimately show ?thesis using Cons by simp
  qed
qed

lemma map_if_key:
  assumes "distinct (map f xs)" "x \<in> set xs"
  shows "map (\<lambda>y. if f y = f x then g y else y) xs = map (\<lambda>y. if y = x then g x else y) xs"
proof (rule map_cong)
  fix y assume "y \<in> set xs"
  then have "f y = f x \<longleftrightarrow> y = x"
    using assms by (meson distinct_map inj_on_def)
  then show "(if f y = f x then g y else y) = (if y = x then g x else y)" by auto
qed simp

lemma row_key_conflict_update: "row_key (conflict_update now p r) = row_key r"
  by (simp add: row_key_def conflict_update_def)

lemma map_conflict_keys:
  "map row_key (map (\<lambda>x. if row_key x = k then conflict_update now p x else x) xs) = map row_key xs"
  by (induction xs) (simp_all add: row_key_conflict_update)

lemma map_conflict_ids:
  "map row_id (map (\<lambda>x. if row_key x = k then conflict_update now p x else x) xs) = map row_id xs"
  by (induction xs) (simp_all add: conflict_update_def)

lemma map_conflict_keys_comp:
  "map (row_key \<circ> (\<lambda>x. if row_key x = k then conflict_update now p x else x)) xs = map row_key xs"
  using map_conflict_keys [of k now p xs] by simp

lemma map_conflict_ids_comp:
  "map (row_id \<circ> (\<lambda>x. if row_key x = k then conflict_update now p x else x)) xs = map row_id xs"
  using map_conflict_ids [of k now p xs] by simp

text \<open>The two paths of the statement, and what it takes for the statement to succeed.\<close>

lemma papers_upsert_conflict:
  assumes "p_title r = Some t" "p_conference r = Some c" "p_year r = Some y" "sqlite_int_ok y"
    and "\<not> engine_fails stm"
    and "(t, c, y) \<in> row_key ` set (papers db)"
  shows "papers_upsert stm db r =
    Inr (db\<lparr>papers := map (\<lambda>x. if row_key x = (t, c, y)
                               then conflict_update (clock_python stm) r x else x) (papers db),
            papers_seq := Suc (papers_seq db)\<rparr>)"
  using assms by (simp add: papers_upsert_def bind_int_def)

lemma papers_upsert_fresh:
  assumes "p_title r = Some t" "p_conference r = Some c" "p_year r = Some y" "sqlite_int_ok y"
    and "\<not> engine_fails stm"
    and "(t, c, y) \<notin> row_key ` set (papers db)"
  shows "papers_upsert stm db r =
    Inr (db\<lparr>papers := papers db @
             [\<lparr>row_id = Suc (papers_seq db), row_title = t, row_authors = p_authors r,
               row_conference = c, row_year = y, row_abstract = p_abstract r,
               row_pdf_url = p_pdf_url r, row_paper_url = p_paper_url r, row_doi = p_doi r,
               row_downloaded = False, row_local_path = None,
               row_created_at = clock_sqlite stm, row_updated_at = clock_python stm\<rparr>],
            papers_seq := Suc (papers_seq db)\<rparr>)"
  using assms by (simp add: papers_upsert_def bind_int_def)

lemma papers_upsert_Inr:
  assumes "papers_upsert stm db r = Inr db'"
  obtains t c y where "p_title r = Some t" "p_conference r = Some c" "p_year r = Some y"
    "sqlite_int_ok y" "\<not> engine_fails stm"
  using assms
  by (auto simp: papers_upsert_def bind_int_def split: if_splits option.splits)

lemma papers_upsert_engine_fails:
  "engine_fails stm \<Longrightarrow> \<exists>e. papers_upsert stm db r = Inl e"
  by (simp add: papers_upsert_def)

lemma papers_upsert_accepts:
  assumes "p_title r = Some t" "p_conference r = Some c" "p_year r = Some y" "sqlite_int_ok y"
    and "\<not> engine_fails stm"
  shows "\<exists>db'. papers_upsert stm db r = Inr db' \<and> (t, c, y) \<in> row_key ` set (papers db')"
proof (cases "(t, c, y) \<in> row_key ` set (papers db)")
  case True
  let ?rows = "map (\<lambda>x. if row_key x = (t, c, y) then conflict_update (clock_python stm) r x
      else x) (papers db)"
  let ?db' = "db\<lparr>papers := ?rows, papers_seq := Suc (papers_seq db)\<rparr>"
  have "row_key ` set ?rows = set (map row_key ?rows)"
    by (simp only: set_map)
  also have "\<dots> = set (map row_key (papers db))"
    by (simp only: map_conflict_keys)
  also have "\<dots> = row_key ` set (papers db)"
    by (simp only: set_map)
  finally have e: "row_key ` set ?rows = row_key ` set (papers db)" .
  have mem: "(t, c, y) \<in> row_key ` set ?rows"
    unfolding e by (rule True)
  show ?thesis
  proof (intro exI conjI)
    show "papers_upsert stm db r = Inr ?db'"
      by (rule papers_upsert_conflict [OF assms True])
    show "(t, c, y) \<in> row_key ` set (papers ?db')"
      using mem by simp
  qed
next
  case False
  show ?thesis
    by (simp add: papers_upsert_fresh [OF assms False] row_key_def)
qed

text \<open>The schema is kept by every operation.\<close>

lemma wf_init_database: "wf_database init_database"
  by (simp add: wf_database_def init_database_def)

lemma wf_papers_upsert:
  assumes wf: "wf_database db" and up: "papers_upsert stm db p = Inr db'"
  shows "wf_database db'"
proof -
  obtain t c y where k: "p_title p = Some t" "p_conference p = Some c" "p_year p = Some y"
      "sqlite_int_ok y" "\<not> engine_fails stm"
    using up by (rule papers_upsert_Inr)
  show ?thesis
  proof (cases "(t, c, y) \<in> row_key ` set (papers db)")
    case True
    have db': "db' = db\<lparr>papers := map (\<lambda>x. if row_key x = (t, c, y)
        then conflict_update (clock_python stm) p x else x) (papers db),
        papers_seq := Suc (papers_seq db)\<rparr>"
      using papers_upsert_conflict [OF k True] up by simp
    have "list_all (\<lambda>r. row_id r \<le> Suc (papers_seq db) \<and> sqlite_int_ok (row_year r)) (papers db')"
      using wf by (auto simp: db' wf_database_def list_all_iff conflict_update_def)
    then show ?thesis
      using wf by (simp add: wf_database_def db' map_conflict_keys_comp map_conflict_ids_comp)
  next
    case False
    have db': "db' = db\<lparr>papers := papers db @
             [\<lparr>row_id = Suc (papers_seq db), row_title = t, row_authors = p_authors p,
               row_conference = c, row_year = y, row_abstract = p_abstract p,
               row_pdf_url = p_pdf_url p, row_paper_url = p_paper_url p, row_doi = p_doi p,
               row_downloaded = False, row_local_path = None,
               row_created_at = clock_sqlite stm, row_updated_at = clock_python stm\<rparr>],
            papers_seq := Suc (papers_seq db)\<rparr>"
      using papers_upsert_fresh [OF k False] up by simp
    have ids: "Suc (papers_seq db) \<notin> row_id ` set (papers db)"
      using wf by (fastforce simp: wf_database_def list_all_iff)
    have "list_all (\<lambda>r. row_id r \<le> Suc (papers_seq db) \<and> sqlite_int_ok (row_year r)) (papers db)"
      using wf by (auto simp: wf_database_def list_all_iff)
    then show ?thesis
      using wf False ids k(4) by (simp add: wf_database_def db' row_key_def)
  qed
qed

lemma wf_insert_paper:
  "wf_database db \<Longrightarrow> insert_paper stm db p = (ok, db') \<Longrightarrow> wf_database db'"
  by (auto simp: insert_paper_def wf_papers_upsert split: sum.splits)

text \<open>
  Claim C2. In a store that satisfies the schema, an upsert of a record whose (title,
  conference, year) is that of a stored row touches that row alone, and of that row only
  authors, abstract, pdf_url, paper_url, doi and updated_at: they take the record's values
  and \<open>datetime.now()\<close> (when the engine fails to execute the statement, the upsert returns
  \<open>False\<close> and nothing changes at all). The row's id, created_at, downloaded and local_path
  (and its key) stay as they were, every other row is as before, and afterwards exactly
  one row has that key.
\<close>

theorem upsert_collision_frame:
  assumes wf: "wf_database db" and row: "row \<in> set (papers db)"
    and key: "p_title r = Some (row_title row)" "p_conference r = Some (row_conference row)"
      "p_year r = Some (row_year row)"
  shows "\<exists>db' row'. insert_paper stm db r = (\<not> engine_fails stm, db') \<and>
      row' = (if engine_fails stm then row
              else row\<lparr>row_authors := p_authors r, row_abstract := p_abstract r,
                       row_pdf_url := p_pdf_url r, row_paper_url := p_paper_url r,
                       row_doi := p_doi r, row_updated_at := clock_python stm\<rparr>) \<and>
      papers db' = map (\<lambda>x. if x = row then row' else x) (papers db) \<and>
      row_id row' = row_id row \<and> row_created_at row' = row_created_at row \<and>
      row_downloaded row' = row_downloaded row \<and> row_local_path row' = row_local_path row \<and>
      filter (\<lambda>x. row_key x = row_key row) (papers db') = [row']"
proof (cases "engine_fails stm")
  case True
  have dk: "distinct (map row_key (papers db))"
    using wf by (simp add: wf_database_def)
  obtain e where "papers_upsert stm db r = Inl e"
    using papers_upsert_engine_fails [OF True] by blast
  then have "insert_paper stm db r = (False, db)"
    by (simp add: insert_paper_def)
  moreover have "map (\<lambda>x. if x = row then row else x) (papers db) = papers db"
    by (induction "papers db") auto
  ultimately show ?thesis
    using True filter_distinct_key [OF dk row] by simp
next
  case False
  let ?now = "clock_python stm"
  let ?row' = "row\<lparr>row_authors := p_authors r, row_abstract := p_abstract r,
                 row_pdf_url := p_pdf_url r, row_paper_url := p_paper_url r,
                 row_doi := p_doi r, row_updated_at := ?now\<rparr>"
  have dk: "distinct (map row_key (papers db))"
    using wf by (simp add: wf_database_def)
  have ok: "sqlite_int_ok (row_year row)"
    using wf row by (auto simp: wf_database_def list_all_iff)
  have k: "(row_title row, row_conference row, row_year row) = row_key row"
    by (simp add: row_key_def)
  have mem: "(row_title row, row_conference row, row_year row) \<in> row_key ` set (papers db)"
    using row k by auto
  have up: "papers_upsert stm db r =
    Inr (db\<lparr>papers := map (\<lambda>x. if row_key x = row_key row then conflict_update ?now r x else x)
              (papers db),
            papers_seq := Suc (papers_seq db)\<rparr>)"
    using papers_upsert_conflict [OF key ok False mem] by (simp only: k)
  have m: "map (\<lambda>x. if row_key x = row_key row then conflict_update ?now r x else x) (papers db)
      = map (\<lambda>x. if x = row then ?row' else x) (papers db)"
    using map_if_key [OF dk row, of "conflict_update ?now r"] by (simp add: conflict_update_def)
  have f: "filter (\<lambda>x. row_key x = row_key row)
      (map (\<lambda>x. if row_key x = row_key row then conflict_update ?now r x else x) (papers db))
      = [?row']"
  proof -
    have "filter (\<lambda>x. row_key x = row_key row)
      (map (\<lambda>x. if row_key x = row_key row then conflict_update ?now r x else x) (papers db))
      = map (\<lambda>x. if row_key x = row_key row then conflict_update ?now r x else x)
          (filter (\<lambda>x. row_key x = row_key row) (papers db))"
      by (simp add: filter_map o_def row_key_conflict_update cong: filter_cong)
    also have "\<dots> = [conflict_update ?now r row]"
      by (simp add: filter_distinct_key [OF dk row])
    finally show ?thesis by (simp add: conflict_update_def)
  qed
  show ?thesis
    using f False by (simp add: insert_paper_def up m)
qed

theorem upsert_collision_frame_witness:
  "wf_database
     \<lparr>papers = [\<lparr>row_id = 1, row_title = ''X'', row_authors = Some ''A'', row_conference = ''CCS'',
                  row_year = 2023, row_abstract = None, row_pdf_url = None, row_paper_url = None,
                  row_doi = None, row_downloaded = True, row_local_path = Some ''x.pdf'',
                  row_created_at = 10, row_updated_at = 11\<rparr>],
      papers_seq = 1, crawl_history = [], crawl_history_seq = 0\<rparr> \<and>
   insert_paper \<lparr>clock_sqlite = 20, clock_python = 21, engine_fails = False\<rparr>
     \<lparr>papers = [\<lparr>row_id = 1, row_title = ''X'', row_authors = Some ''A'', row_conference = ''CCS'',
                  row_year = 2023, row_abstract = None, row_pdf_url = None, row_paper_url = None,
                  row_doi = None, row_downloaded = True, row_local_path = Some ''x.pdf'',
                  row_created_at = 10, row_updated_at = 11\<rparr>],
      papers_seq = 1, crawl_history = [], crawl_history_seq = 0\<rparr>
     \<lparr>p_title = Some ''X'', p_authors = Some ''B'', p_conference = Some ''CCS'', p_year = Some 2023,
      p_abstract = Some ''text'', p_pdf_url = None, p_paper_url = None, p_doi = None\<rparr> =
   (True,
    \<lparr>papers = [\<lparr>row_id = 1, row_title = ''X'', row_authors = Some ''B'', row_conference = ''CCS'',
                  row_year = 2023, row_abstract = Some ''text'', row_pdf_url = None,
                  row_paper_url = None, row_doi = None, row_downloaded = True,
                  row_local_path = Some ''x.pdf'', row_created_at = 10, row_updated_at = 21\<rparr>],
      papers_seq = 2, crawl_history = [], crawl_history_seq = 0\<rparr>)"
proof -
  let ?row = "\<lparr>row_id = 1, row_title = ''X'', row_authors = Some ''A'', row_conference = ''CCS'',
                  row_year = 2023, row_abstract = None, row_pdf_url = None, row_paper_url = None,
                  row_doi = None, row_downloaded = True, row_local_path = Some ''x.pdf'',
                  row_created_at = 10, row_updated_at = 11\<rparr>"
  let ?db = "\<lparr>papers = [?row], papers_seq = 1, crawl_history = [], crawl_history_seq = 0\<rparr>"
  let ?r = "\<lparr>p_title = Some ''X'', p_authors = Some ''B'', p_conference = Some ''CCS'', p_year = Some 2023,
      p_abstract = Some ''text'', p_pdf_url = None, p_paper_url = None, p_doi = None\<rparr>"
  have wf: "wf_database ?db"
    by (simp add: wf_database_def sqlite_int_ok_def)
  have row: "?row \<in> set (papers ?db)"
    by simp
  have k1: "p_title ?r = Some (row_title ?row)" by simp
  have k2: "p_conference ?r = Some (row_conference ?row)" by simp
  have k3: "p_year ?r = Some (row_year ?row)" by simp
  show ?thesis
    using wf upsert_collision_frame [OF wf row k1 k2 k3,
        of "\<lparr>clock_sqlite = 20, clock_python = 21, engine_fails = False\<rparr>"]
    by (simp add: insert_paper_def papers_upsert_def bind_int_def sqlite_int_ok_def
        row_key_def conflict_update_def)
qed

text \<open>
  Claim C3, as stated, fails: a record without a title is refused both times, so the
  second upsert returns \<open>False\<close>.
\<close>

theorem upsert_twice_counterexample:
  "\<not> fst (insert_paper \<lparr>clock_sqlite = 7, clock_python = 8, engine_fails = False\<rparr>
        (snd (insert_paper \<lparr>clock_sqlite = 5, clock_python = 6, engine_fails = False\<rparr>
           init_database
           \<lparr>p_title = None, p_authors = Some ''A'', p_conference = Some ''CCS'', p_year = Some 2023,
      p_abstract = None, p_pdf_url = None, p_paper_url = None, p_doi = None\<rparr>))
        \<lparr>p_title = None, p_authors = Some ''A'', p_conference = Some ''CCS'', p_year = Some 2023,
      p_abstract = None, p_pdf_url = None, p_paper_url = None, p_doi = None\<rparr>)"
  by (simp add: insert_paper_def papers_upsert_def)

text \<open>
  Claim C3, amended. For every record whose first upsert returns \<open>True\<close> (the table accepts
  it: title, conference and year are present, the year fits 64 bits, the engine executes
  the statement), a second upsert of the same record leaves \<open>total_papers\<close> as it was after
  the first, and it returns \<open>True\<close>; only when the engine fails to execute the second
  statement does it return \<open>False\<close>. It never raises.
\<close>

theorem upsert_twice_idempotent:
  assumes first: "fst (insert_paper stm1 db r)"
  shows "total_papers (get_statistics (snd (insert_paper stm2 (snd (insert_paper stm1 db r)) r))) =
       total_papers (get_statistics (snd (insert_paper stm1 db r))) \<and>
     (fst (insert_paper stm2 (snd (insert_paper stm1 db r)) r) \<longleftrightarrow> \<not> engine_fails stm2)"
proof -
  obtain db1 where 1: "papers_upsert stm1 db r = Inr db1"
    using first by (auto simp: insert_paper_def split: sum.splits)
  obtain t c y where k: "p_title r = Some t" "p_conference r = Some c" "p_year r = Some y"
      "sqlite_int_ok y" "\<not> engine_fails stm1"
    using 1 by (rule papers_upsert_Inr)
  have mem: "(t, c, y) \<in> row_key ` set (papers db1)"
    using papers_upsert_accepts [OF k, of db] 1 by auto
  have s1: "insert_paper stm1 db r = (True, db1)"
    by (simp add: insert_paper_def 1)
  show ?thesis
  proof (cases "engine_fails stm2")
    case True
    obtain e where "papers_upsert stm2 db1 r = Inl e"
      using papers_upsert_engine_fails [OF True] by blast
    then have s2: "insert_paper stm2 db1 r = (False, db1)"
      by (simp add: insert_paper_def)
    show ?thesis
      using True by (simp add: s1 s2)
  next
    case False
    have "papers_upsert stm2 db1 r =
      Inr (db1\<lparr>papers := map (\<lambda>x. if row_key x = (t, c, y)
                               then conflict_update (clock_python stm2) r x else x) (papers db1),
               papers_seq := Suc (papers_seq db1)\<rparr>)"
      by (rule papers_upsert_conflict [OF k(1-4) False mem])
    then have s2: "insert_paper stm2 db1 r =
      (True, db1\<lparr>papers := map (\<lambda>x. if row_key x = (t, c, y)
                               then conflict_update (clock_python stm2) r x else x) (papers db1),
               papers_seq := Suc (papers_seq db1)\<rparr>)"
      by (simp add: insert_paper_def)
    show ?thesis
      using False by (simp add: s1 s2 get_statistics_def)
  qed
qed

theorem upsert_twice_idempotent_witness:
  "fst (insert_paper \<lparr>clock_sqlite = 5, clock_python = 6, engine_fails = False\<rparr> init_database
      \<lparr>p_title = Some ''X'', p_authors = Some ''A'', p_conference = Some ''CCS'', p_year = Some 2023,
      p_abstract = None, p_pdf_url = None, p_paper_url = None, p_doi = None\<rparr>) \<and>
   fst (insert_paper \<lparr>clock_sqlite = 7, clock_python = 8, engine_fails = False\<rparr>
        (snd (insert_paper \<lparr>clock_sqlite = 5, clock_python = 6, engine_fails = False\<rparr>
           init_database
           \<lparr>p_title = Some ''X'', p_authors = Some ''A'', p_conference = Some ''CCS'', p_year = Some 2023,
      p_abstract = None, p_pdf_url = None, p_paper_url = None, p_doi = None\<rparr>))
        \<lparr>p_title = Some ''X'', p_authors = Some ''A'', p_conference = Some ''CCS'', p_year = Some 2023,
      p_abstract = None, p_pdf_url = None, p_paper_url = None, p_doi = None\<rparr>) \<and>
   total_papers (get_statistics
     (snd (insert_paper \<lparr>clock_sqlite = 7, clock_python = 8, engine_fails = False\<rparr>
        (snd (insert_paper \<lparr>clock_sqlite = 5, clock_python = 6, engine_fails = False\<rparr>
           init_database
           \<lparr>p_title = Some ''X'', p_authors = Some ''A'', p_conference = Some ''CCS'', p_year = Some 2023,
      p_abstract = None, p_pdf_url = None, p_paper_url = None, p_doi = None\<rparr>))
        \<lparr>p_title = Some ''X'', p_authors = Some ''A'', p_conference = Some ''CCS'', p_year = Some 2023,
      p_abstract = None, p_pdf_url = None, p_paper_url = None, p_doi = None\<rparr>))) = 1"
proof -
  let ?r = "\<lparr>p_title = Some ''X'', p_authors = Some ''A'', p_conference = Some ''CCS'', p_year = Some 2023,
      p_abstract = None, p_pdf_url = None, p_paper_url = None, p_doi = None\<rparr>"
  let ?s1 = "\<lparr>clock_sqlite = 5, clock_python = 6, engine_fails = False\<rparr>"
  let ?s2 = "\<lparr>clock_sqlite = 7, clock_python = 8, engine_fails = False\<rparr>"
  have first: "insert_paper ?s1 init_database ?r =
      (True, \<lparr>papers = [\<lparr>row_id = 1, row_title = ''X'', row_authors = Some ''A'',
          row_conference = ''CCS'', row_year = 2023, row_abstract = None, row_pdf_url = None,
          row_paper_url = None, row_doi = None, row_downloaded = False, row_local_path = None,
          row_created_at = 5, row_updated_at = 6\<rparr>],
        papers_seq = 1, crawl_history = [], crawl_history_seq = 0\<rparr>)"
    by (simp add: insert_paper_def papers_upsert_def bind_int_def sqlite_int_ok_def
        init_database_def)
  have ok: "fst (insert_paper ?s1 init_database ?r)"
    by (simp only: first fst_conv)
  have n: "total_papers (get_statistics (snd (insert_paper ?s1 init_database ?r))) = 1"
    by (simp only: first snd_conv) (simp add: get_statistics_def)
  show ?thesis
    using ok n upsert_twice_idempotent [OF ok, of ?s2]
    by simp
qed

text \<open>
  Claim C10. In every store state, an upsert of a record whose title is missing or null
  returns \<open>False\<close> and leaves the store as it was: the \<open>NOT NULL\<close> failure is caught inside
  \<open>insert_paper\<close>.
\<close>

theorem insert_paper_null_title:
  "p_title r = None \<Longrightarrow> insert_paper stm db r = (False, db)"
  by (simp add: insert_paper_def papers_upsert_def)


theorem insert_paper_null_title_witness:
  "insert_paper \<lparr>clock_sqlite = 5, clock_python = 6, engine_fails = False\<rparr> init_database
     \<lparr>p_title = None, p_authors = Some ''A'', p_conference = Some ''CCS'', p_year = Some 2023,
      p_abstract = None, p_pdf_url = None, p_paper_url = None, p_doi = None\<rparr> =
   (False, init_database)"
  using insert_paper_null_title [of "\<lparr>p_title = None, p_authors = Some ''A'', p_conference = Some ''CCS'', p_year = Some 2023,
      p_abstract = None, p_pdf_url = None, p_paper_url = None, p_doi = None\<rparr>"
      "\<lparr>clock_sqlite = 5, clock_python = 6, engine_fails = False\<rparr>" init_database]
  by simp

text \<open>
  Claim C8. When the papers table has no rows, \<open>get_statistics\<close> returns \<open>total_papers = 0\<close>,
  an empty \<open>by_conference\<close> dictionary and \<open>last_update = None\<close>.
\<close>

theorem get_statistics_empty:
  "papers db = [] \<Longrightarrow>
     total_papers (get_statistics db) = 0 \<and>
     by_conference (get_statistics db) = Map.empty \<and>
     last_update (get_statistics db) = None"
  by (simp add: get_statistics_def group_by_conference_def max_created_at_def)

theorem get_statistics_empty_witness:
  "papers init_database = [] \<and>
   total_papers (get_statistics init_database) = 0 \<and>
   by_conference (get_statistics init_database) = Map.empty \<and>
   last_update (get_statistics init_database) = None"
proof -
  have h: "papers init_database = []"
    by (simp add: init_database_def)
  show ?thesis
    using h get_statistics_empty [OF h] by simp
qed

text \<open>
  Claim C9. \<open>get_papers\<close> takes a falsy filter for an absent one: with \<open>year = 0\<close> it returns
  what it returns with \<open>year\<close> omitted, with \<open>conference = ""\<close> what it returns with
  \<open>conference\<close> omitted, whatever the other arguments are; and with both falsy and no limit
  that is every row of the table, newest first by \<open>created_at\<close>.
\<close>

theorem get_papers_falsy_filters:
  "get_papers db conference (Some 0) limit = get_papers db conference None limit \<and>
   get_papers db (Some []) year limit = get_papers db None year limit \<and>
   (\<exists>rows. get_papers db (Some []) (Some 0) None = Inr rows \<and>
      mset rows = mset (papers db) \<and>
      sorted_wrt (\<lambda>a b. row_created_at b \<le> row_created_at a) rows)"
proof (intro conjI)
  show "get_papers db conference (Some 0) limit = get_papers db conference None limit"
    by (simp add: get_papers_def truthy_int_def)
  show "get_papers db (Some []) year limit = get_papers db None year limit"
    by (simp add: get_papers_def truthy_str_def)
  have "sorted (map row_created_at (sort_key row_created_at (papers db)))"
    by (rule sorted_sort_key)
  then have "sorted_wrt (\<lambda>a b. row_created_at b \<le> row_created_at a)
      (order_by_created_at_desc (papers db))"
    by (simp add: order_by_created_at_desc_def sorted_wrt_rev sorted_map)
  then show "\<exists>rows. get_papers db (Some []) (Some 0) None = Inr rows \<and>
      mset rows = mset (papers db) \<and>
      sorted_wrt (\<lambda>a b. row_created_at b \<le> row_created_at a) rows"
    by (simp add: get_papers_def truthy_str_def truthy_int_def order_by_created_at_desc_def)
qed

theorem get_papers_falsy_filters_witness:
  "get_papers
     \<lparr>papers =
        [\<lparr>row_id = 1, row_title = ''X'', row_authors = None, row_conference = ''CCS'',
          row_year = 2023, row_abstract = None, row_pdf_url = None, row_paper_url = None,
          row_doi = None, row_downloaded = False, row_local_path = None,
          row_created_at = 10, row_updated_at = 10\<rparr>,
         \<lparr>row_id = 2, row_title = ''Y'', row_authors = None, row_conference = ''NDSS'',
          row_year = 2024, row_abstract = None, row_pdf_url = None, row_paper_url = None,
          row_doi = None, row_downloaded = False, row_local_path = None,
          row_created_at = 20, row_updated_at = 20\<rparr>],
      papers_seq = 2, crawl_history = [], crawl_history_seq = 0\<rparr>
     (Some []) (Some 0) None =
   Inr [\<lparr>row_id = 2, row_title = ''Y'', row_authors = None, row_conference = ''NDSS'',
          row_year = 2024, row_abstract = None, row_pdf_url = None, row_paper_url = None,
          row_doi = None, row_downloaded = False, row_local_path = None,
          row_created_at = 20, row_updated_at = 20\<rparr>,
        \<lparr>row_id = 1, row_title = ''X'', row_authors = None, row_conference = ''CCS'',
          row_year = 2023, row_abstract = None, row_pdf_url = None, row_paper_url = None,
          row_doi = None, row_downloaded = False, row_local_path = None,
          row_created_at = 10, row_updated_at = 10\<rparr>]"
  using get_papers_falsy_filters [of
     "\<lparr>papers =
        [\<lparr>row_id = 1, row_title = ''X'', row_authors = None, row_conference = ''CCS'',
          row_year = 2023, row_abstract = None, row_pdf_url = None, row_paper_url = None,
          row_doi = None, row_downloaded = False, row_local_path = None,
          row_created_at = 10, row_updated_at = 10\<rparr>,
         \<lparr>row_id = 2, row_title = ''Y'', row_authors = None, row_conference = ''NDSS'',
          row_year = 2024, row_abstract = None, row_pdf_url = None, row_paper_url = None,
          row_doi = None, row_downloaded = False, row_local_path = None,
          row_created_at = 20, row_updated_at = 20\<rparr>],
      papers_seq = 2, crawl_history = [], crawl_history_seq = 0\<rparr>" "Some []" None "Some 0"]
  by (simp add: get_papers_def truthy_str_def truthy_int_def order_by_created_at_desc_def)


section \<open>Properties of fetching\<close>

lemma requests_made_append:
  "requests_made (t @ u) = requests_made t + requests_made u"
  by (simp add: requests_made_def)

lemma requests_made_failed_attempts: "requests_made (failed_attempts url k) = k"
  by (induction k) (simp_all add: failed_attempts_def requests_made_def)

lemma failed_attempts_Suc:
  "failed_attempts url (Suc k) = failed_attempts url k @ [Request url, Sleep (2 ^ k)]"
  by (simp add: failed_attempts_def)

text \<open>The loop from attempt \<open>a\<close> on, when every remaining attempt fails.\<close>

lemma fetch_attempts_all_fail:
  assumes n: "retry_times self = int n"
    and "a < n"
    and "\<And>k. a \<le> k \<Longrightarrow> k < n \<Longrightarrow> net url (requests_made trace + (k - a)) = Failure"
  shows "fetch_attempts self net url [a..<n] trace =
    (Inl RequestException,
     trace @ concat (map (\<lambda>i. [Request url, Sleep (2 ^ i)]) [a..<n - 1]) @ [Request url])"
  using assms(2,3)
proof (induction "n - Suc a" arbitrary: a trace)
  case 0
  then have a: "n = Suc a" by simp
  have f: "net url (requests_made trace) = Failure"
    using "0.prems"(2) [of a] "0.prems"(1) by simp
  show ?case
    by (simp add: a f n)
next
  case (Suc d)
  then have lt: "Suc a < n" by simp
  have f: "net url (requests_made trace) = Failure"
    using Suc.prems(2) [of a] Suc.prems(1) by simp
  let ?trace = "trace @ [Request url, Sleep (2 ^ a)]"
  have rm: "requests_made ?trace = Suc (requests_made trace)"
    by (simp add: requests_made_def)
  have ih: "fetch_attempts self net url [Suc a..<n] ?trace =
    (Inl RequestException,
     ?trace @ concat (map (\<lambda>i. [Request url, Sleep (2 ^ i)]) [Suc a..<n - 1]) @ [Request url])"
  proof (rule Suc.hyps(1))
    show "d = n - Suc (Suc a)" using Suc.hyps(2) by simp
    show "Suc a < n" by (rule lt)
    fix k assume k: "Suc a \<le> k" "k < n"
    have "net url (requests_made trace + (k - a)) = Failure"
      using Suc.prems(2) [of k] k by simp
    moreover have "requests_made ?trace + (k - Suc a) = requests_made trace + (k - a)"
      using k by (simp add: rm)
    ultimately show "net url (requests_made ?trace + (k - Suc a)) = Failure" by simp
  qed
  have up1: "[a..<n] = a # [Suc a..<n]"
    using lt by (simp add: upt_conv_Cons)
  have up2: "[a..<n - 1] = a # [Suc a..<n - 1]"
    using lt by (simp add: upt_conv_Cons)
  have cond: "int a < retry_times self - 1"
    using lt n by simp
  show ?case
    by (simp only: up1 up2 fetch_attempts.simps f http_result.case cond if_True ih
        list.map concat.simps append_assoc append.simps)
qed

lemma fetch_attempts_success:
  assumes n: "retry_times self = int n"
    and "a \<le> k" "k < n"
    and "\<And>j. a \<le> j \<Longrightarrow> j < k \<Longrightarrow> net url (requests_made trace + (j - a)) = Failure"
    and "net url (requests_made trace + (k - a)) = Response body"
  shows "fetch_attempts self net url [a..<n] trace =
    (Inr body,
     trace @ concat (map (\<lambda>i. [Request url, Sleep (2 ^ i)]) [a..<k]) @
       [Request url, Sleep (delay self)])"
  using assms(2-5)
proof (induction "k - a" arbitrary: a trace)
  case 0
  then have a: "a = k" by simp
  have up1: "[k..<n] = k # [Suc k..<n]"
    using "0.prems"(2) by (simp add: upt_conv_Cons)
  have r: "net url (requests_made trace) = Response body"
    using "0.prems"(4) a by simp
  show ?case
    by (simp add: a up1 r)
next
  case (Suc d)
  then have lt: "a < k" by simp
  have f: "net url (requests_made trace) = Failure"
    using Suc.prems(3) [of a] lt by simp
  let ?trace = "trace @ [Request url, Sleep (2 ^ a)]"
  have rm: "requests_made ?trace = Suc (requests_made trace)"
    by (simp add: requests_made_def)
  have ih: "fetch_attempts self net url [Suc a..<n] ?trace =
    (Inr body,
     ?trace @ concat (map (\<lambda>i. [Request url, Sleep (2 ^ i)]) [Suc a..<k]) @
       [Request url, Sleep (delay self)])"
  proof (rule Suc.hyps(1))
    show "d = k - Suc a" using Suc.hyps(2) by simp
    show "Suc a \<le> k" using lt by simp
    show "k < n" by (rule Suc.prems(2))
    have "requests_made ?trace + (k - Suc a) = requests_made trace + (k - a)"
      using lt by (simp add: rm)
    then show "net url (requests_made ?trace + (k - Suc a)) = Response body"
      using Suc.prems(4) by simp
    fix j assume j: "Suc a \<le> j" "j < k"
    have "net url (requests_made trace + (j - a)) = Failure"
      using Suc.prems(3) [of j] j by simp
    moreover have "requests_made ?trace + (j - Suc a) = requests_made trace + (j - a)"
      using j by (simp add: rm)
    ultimately show "net url (requests_made ?trace + (j - Suc a)) = Failure" by simp
  qed
  have up1: "[a..<n] = a # [Suc a..<n]"
    using lt Suc.prems(2) by (simp add: upt_conv_Cons)
  have up2: "[a..<k] = a # [Suc a..<k]"
    using lt by (simp add: upt_conv_Cons)
  have cond: "int a < retry_times self - 1"
    using lt Suc.prems(2) n by simp
  show ?case
    by (simp only: up1 up2 fetch_attempts.simps f http_result.case cond if_True ih
        list.map concat.simps append_assoc append.simps)
qed

text \<open>
  Claim C6, as stated, fails: with \<open>retry_times = 0\<close> in the configuration the loop body
  never runs, so over a transport that always fails \<open>fetch_page\<close> makes no attempt and
  returns \<open>""\<close> instead of raising.
\<close>

theorem fetch_page_zero_retries_counterexample:
  "fetch_page \<lparr>conference_name = ''CCS'', timeout = 30, retry_times = 0, delay = 1\<rparr>
     (\<lambda>url n. Failure) ''https://dblp.org/db/conf/ccs/ccs2023.html'' [] = (Inr [], [])"
  by (simp add: fetch_page_def range_int_def)


text \<open>
  Claim C6, amended. When \<open>retry_times\<close> is at least 1 and the transport fails on every
  attempt, \<open>fetch_page\<close> raises the request error after exactly \<open>retry_times\<close> requests,
  having waited \<open>2 ^ attempt_index\<close> seconds after each attempt but the last. When the
  first successful attempt is attempt \<open>k\<close> (counted from 0, \<open>k < retry_times\<close>), it sleeps
  \<open>2 ^ attempt_index\<close> after each failed attempt, then the politeness delay, and returns
  the body of that response. \<open>retry_times\<close> is 3 when the configuration does not set it.
\<close>

theorem fetch_page_retry:
  "(1 \<le> retry_times self \<and> (\<forall>k < nat (retry_times self). net url (requests_made trace + k) = Failure)
      \<longrightarrow> fetch_page self net url trace =
            (Inl RequestException,
             trace @ failed_attempts url (nat (retry_times self) - 1) @ [Request url]) \<and>
          requests_made (snd (fetch_page self net url trace)) =
            requests_made trace + nat (retry_times self)) \<and>
   (int k < retry_times self \<and> (\<forall>j < k. net url (requests_made trace + j) = Failure) \<and>
      net url (requests_made trace + k) = Response body
      \<longrightarrow> fetch_page self net url trace =
            (Inr body, trace @ failed_attempts url k @ [Request url, Sleep (delay self)])) \<and>
   retry_times (BaseCrawler_init name
      \<lparr>request_timeout = t, cfg_retry_times = None, delay_between_requests = d\<rparr>) = 3"
proof (intro conjI impI)
  assume h: "1 \<le> retry_times self \<and>
    (\<forall>k < nat (retry_times self). net url (requests_made trace + k) = Failure)"
  let ?n = "nat (retry_times self)"
  have n: "retry_times self = int ?n" using h by simp
  have pos: "0 < ?n" using h by simp
  have "fetch_attempts self net url [0..<?n] trace =
    (Inl RequestException,
     trace @ concat (map (\<lambda>i. [Request url, Sleep (2 ^ i)]) [0..<?n - 1]) @ [Request url])"
  proof (rule fetch_attempts_all_fail [OF n pos])
    fix k assume "k < ?n"
    then show "net url (requests_made trace + (k - 0)) = Failure" using h by simp
  qed
  then show e: "fetch_page self net url trace =
    (Inl RequestException, trace @ failed_attempts url (?n - 1) @ [Request url])"
    by (simp add: fetch_page_def range_int_def failed_attempts_def)
  show "requests_made (snd (fetch_page self net url trace)) = requests_made trace + ?n"
    using pos by (simp add: e requests_made_append requests_made_failed_attempts)
       (simp add: requests_made_def)
next
  assume h: "int k < retry_times self \<and> (\<forall>j < k. net url (requests_made trace + j) = Failure) \<and>
      net url (requests_made trace + k) = Response body"
  let ?n = "nat (retry_times self)"
  have n: "retry_times self = int ?n" using h by linarith
  have k: "k < ?n" using h by linarith
  have "fetch_attempts self net url [0..<?n] trace =
    (Inr body,
     trace @ concat (map (\<lambda>i. [Request url, Sleep (2 ^ i)]) [0..<k]) @
       [Request url, Sleep (delay self)])"
  proof (rule fetch_attempts_success [OF n _ k])
    show "0 \<le> k" by simp
    show "net url (requests_made trace + (k - 0)) = Response body" using h by simp
    fix j assume "j < k"
    then show "net url (requests_made trace + (j - 0)) = Failure" using h by simp
  qed
  then show "fetch_page self net url trace =
    (Inr body, trace @ failed_attempts url k @ [Request url, Sleep (delay self)])"
    by (simp add: fetch_page_def range_int_def failed_attempts_def)
next
  show "retry_times (BaseCrawler_init name
      \<lparr>request_timeout = t, cfg_retry_times = None, delay_between_requests = d\<rparr>) = 3"
    by (simp add: BaseCrawler_init_def)
qed


theorem fetch_page_retry_witness:
  "fetch_page \<lparr>conference_name = ''CCS'', timeout = 30, retry_times = 3, delay = 5\<rparr>
     (\<lambda>url n. Failure) ''u'' [] =
     (Inl RequestException, [Request ''u'', Sleep 1, Request ''u'', Sleep 2, Request ''u'']) \<and>
   fetch_page \<lparr>conference_name = ''CCS'', timeout = 30, retry_times = 3, delay = 5\<rparr>
     (\<lambda>url n. if n < 2 then Failure else Response ''page'') ''u'' [] =
     (Inr ''page'',
      [Request ''u'', Sleep 1, Request ''u'', Sleep 2, Request ''u'', Sleep 5])"
  using
    fetch_page_retry [where self = "\<lparr>conference_name = ''CCS'', timeout = 30, retry_times = 3,
        delay = 5\<rparr>" and net = "\<lambda>url n. Failure" and url = "''u''" and trace = "[]"
        and k = 0 and body = "''page''"]
    fetch_page_retry [where self = "\<lparr>conference_name = ''CCS'', timeout = 30, retry_times = 3,
        delay = 5\<rparr>" and net = "\<lambda>url n. if n < 2 then Failure else Response ''page''"
        and url = "''u''" and trace = "[]" and k = 2 and body = "''page''"]
  by (simp add: failed_attempts_def requests_made_def eval_nat_numeral)

section \<open>Properties of the parsers and of the manager\<close>
















lemma log_crawl_history_ok:
  "sqlite_int_ok year \<Longrightarrow>
   log_crawl_history ct db name year n status msg =
     Inr (db\<lparr>crawl_history := crawl_history db @
               [\<lparr>h_id = Suc (crawl_history_seq db), h_conference = name, h_year = year,
                 h_papers_count = n, h_status = status, h_error_message = msg,
                 h_created_at = ct\<rparr>],
             crawl_history_seq := Suc (crawl_history_seq db)\<rparr>)"
  by (simp add: log_crawl_history_def)

lemma log_crawl_history_overflow:
  "\<not> sqlite_int_ok year \<Longrightarrow> log_crawl_history ct db name year n status msg = Inl OverflowError"
  by (simp add: log_crawl_history_def)

lemma wf_log_crawl_history:
  "wf_database db \<Longrightarrow> log_crawl_history ct db name year n status msg = Inr db' \<Longrightarrow>
     wf_database db'"
  by (auto simp: log_crawl_history_def wf_database_def split: if_splits)

lemma wf_insert_papers_loop:
  "wf_database db \<Longrightarrow> insert_papers_loop stms i ps n db = (m, db') \<Longrightarrow> wf_database db'"
proof (induction ps arbitrary: i n db)
  case Nil
  then show ?case by simp
next
  case (Cons p ps)
  obtain ok db1 where 1: "insert_paper (stms i) db p = (ok, db1)"
    by (cases "insert_paper (stms i) db p")
  have wf1: "wf_database db1"
    using Cons.prems(1) 1 by (rule wf_insert_paper)
  have "\<exists>n'. insert_papers_loop stms (Suc i) ps n' db1 = (m, db')"
    using Cons.prems(2) 1 by (cases ok) auto
  then obtain n' where "insert_papers_loop stms (Suc i) ps n' db1 = (m, db')" ..
  with wf1 show ?case
    by (rule Cons.IH)
qed

lemma wf_crawl_conference:
  assumes wf: "wf_database db"
    and run: "crawl_conference crawler_config env name year (db, trace) = (r, db', trace')"
  shows "wf_database db'"
proof -
  obtain all_papers t1 where crawl:
    "run_crawlers (http env) (bs4 env) (crawlers_get crawler_config name) year [] trace =
       (all_papers, t1)"
    by (cases "run_crawlers (http env) (bs4 env) (crawlers_get crawler_config name) year [] trace")
  let ?unique = "deduplicate_papers all_papers"
  obtain saved_count db1 where batch:
    "insert_papers_batch (insert_env env) db ?unique = (saved_count, db1)"
    by (cases "insert_papers_batch (insert_env env) db ?unique")
  have wf1: "wf_database db1"
    using wf batch wf_insert_papers_loop [of db "insert_env env" 0 ?unique 0 saved_count db1]
    by (simp add: insert_papers_batch_def)
  show ?thesis
  proof (cases "?unique = []")
    case True
    then show ?thesis
      using run wf
      by (auto simp: crawl_conference_def crawl split: sum.splits dest: wf_log_crawl_history)
  next
    case False
    then show ?thesis
      using run wf1
      by (auto simp: crawl_conference_def crawl batch split: sum.splits
          dest: wf_log_crawl_history)
  qed
qed




text \<open>
  Claim C7, as stated, fails: a year outside the signed 64-bit range cannot be bound as a
  parameter of the \<open>INSERT INTO crawl_history\<close>; \<open>log_crawl_history\<close> raises \<open>OverflowError\<close>,
  \<open>crawl_conference\<close> does not catch it, and no row is recorded.
\<close>

theorem crawl_conference_unregistered_overflow_counterexample:
  "crawl_conference
     \<lparr>request_timeout = None, cfg_retry_times = None, delay_between_requests = None\<rparr>
     \<lparr>http = (\<lambda>url n. Response ''page''),
      bs4 = \<lparr>li_entry = (\<lambda>html. []),
             div_paper_ndss = (\<lambda>html. []), div_views_row = (\<lambda>html. []),
             div_paper_sp = (\<lambda>html. [])\<rparr>,
      insert_env = (\<lambda>i. \<lparr>clock_sqlite = 5, clock_python = 6, engine_fails = False\<rparr>),
      history_clock = 7\<rparr>
     ''ICSE'' (2 ^ 63) (init_database, []) =
   (Inl OverflowError, init_database, [])"
  by (simp add: crawl_conference_def crawlers_get_def crawlers_def deduplicate_papers_def
      log_crawl_history_def sqlite_int_ok_def)

text \<open>
  Claim C7, amended. For every year in the signed 64-bit range, \<open>crawl_conference\<close> with a
  conference name that has no registered crawlers performs no fetch (the trace is
  unchanged), leaves the papers table as it is and appends exactly one row to
  \<open>crawl_history\<close>, with status \<open>empty\<close> and count 0.
\<close>

theorem crawl_conference_unregistered:
  assumes "crawlers_get crawler_config name = []" and ok: "sqlite_int_ok year"
  shows "crawl_conference crawler_config env name year (db, trace) =
    (Inr (),
     db\<lparr>crawl_history := crawl_history db @
          [\<lparr>h_id = Suc (crawl_history_seq db), h_conference = name, h_year = year,
            h_papers_count = 0, h_status = ''empty'', h_error_message = None,
            h_created_at = history_clock env\<rparr>],
        crawl_history_seq := Suc (crawl_history_seq db)\<rparr>,
     trace)"
  by (simp add: crawl_conference_def assms(1) deduplicate_papers_Nil log_crawl_history_ok [OF ok])


theorem crawl_conference_unregistered_witness:
  "crawlers_get \<lparr>request_timeout = None, cfg_retry_times = None, delay_between_requests = None\<rparr>
      ''ICSE'' = [] \<and>
   sqlite_int_ok 2023 \<and>
   crawl_conference
     \<lparr>request_timeout = None, cfg_retry_times = None, delay_between_requests = None\<rparr>
     \<lparr>http = (\<lambda>url n. Response ''page''),
      bs4 = \<lparr>li_entry = (\<lambda>html. []),
             div_paper_ndss = (\<lambda>html. []), div_views_row = (\<lambda>html. []),
             div_paper_sp = (\<lambda>html. [])\<rparr>,
      insert_env = (\<lambda>i. \<lparr>clock_sqlite = 5, clock_python = 6, engine_fails = False\<rparr>),
      history_clock = 7\<rparr>
     ''ICSE'' 2023 (init_database, []) =
   (Inr (),
    \<lparr>papers = [], papers_seq = 0,
     crawl_history =
       [\<lparr>h_id = 1, h_conference = ''ICSE'', h_year = 2023, h_papers_count = 0,
         h_status = ''empty'', h_error_message = None, h_created_at = 7\<rparr>],
     crawl_history_seq = 1\<rparr>,
    [])"
proof -
  have ok: "sqlite_int_ok 2023"
    by (simp add: sqlite_int_ok_def)
  have none: "crawlers_get \<lparr>request_timeout = None, cfg_retry_times = None, delay_between_requests = None\<rparr> ''ICSE'' = []"
    by (simp add: crawlers_get_def crawlers_def)
  show ?thesis
    using ok none crawl_conference_unregistered [OF none ok, of
      "\<lparr>http = (\<lambda>url n. Response ''page''),
      bs4 = \<lparr>li_entry = (\<lambda>html. []),
             div_paper_ndss = (\<lambda>html. []), div_views_row = (\<lambda>html. []),
             div_paper_sp = (\<lambda>html. [])\<rparr>,
      insert_env = (\<lambda>i. \<lparr>clock_sqlite = 5, clock_python = 6, engine_fails = False\<rparr>),
      history_clock = 7\<rparr>" init_database "[]"]
    by (simp add: init_database_def)
qed


text \<open>
  Claim C4. For every list of papers, \<open>_deduplicate_papers\<close> returns the first occurrence
  of each key (title, conference, year) in input order: it is the list of first
  occurrences, a subsequence of the input, not longer than the input, and no key occurs
  twice in it.
\<close>

theorem deduplicate_papers_first_occurrence_subsequence:
  "deduplicate_papers ps = first_occurrences ps \<and>
   subseq (deduplicate_papers ps) ps \<and>
   length (deduplicate_papers ps) \<le> length ps \<and>
   distinct (map key_of (deduplicate_papers ps))"
  using deduplicate_papers_subseq [of ps]
  by (simp add: deduplicate_papers_first_occurrences [symmetric] deduplicate_papers_distinct
      list_emb_length)

theorem deduplicate_papers_first_occurrence_subsequence_witness:
  "deduplicate_papers
     [\<lparr>p_title = Some ''X'', p_authors = Some ''A'', p_conference = Some ''CCS'',
       p_year = Some 2023, p_abstract = None, p_pdf_url = None, p_paper_url = None,
       p_doi = None\<rparr>,
      \<lparr>p_title = Some ''Y'', p_authors = Some ''A'', p_conference = Some ''CCS'',
       p_year = Some 2023, p_abstract = None, p_pdf_url = None, p_paper_url = None,
       p_doi = None\<rparr>,
      \<lparr>p_title = Some ''X'', p_authors = Some ''B'', p_conference = Some ''CCS'',
       p_year = Some 2023, p_abstract = None, p_pdf_url = None, p_paper_url = None,
       p_doi = None\<rparr>] =
   [\<lparr>p_title = Some ''X'', p_authors = Some ''A'', p_conference = Some ''CCS'',
       p_year = Some 2023, p_abstract = None, p_pdf_url = None, p_paper_url = None,
       p_doi = None\<rparr>,
      \<lparr>p_title = Some ''Y'', p_authors = Some ''A'', p_conference = Some ''CCS'',
       p_year = Some 2023, p_abstract = None, p_pdf_url = None, p_paper_url = None,
       p_doi = None\<rparr>]"
  using deduplicate_papers_first_occurrence_subsequence [of
     "[\<lparr>p_title = Some ''X'', p_authors = Some ''A'', p_conference = Some ''CCS'',
       p_year = Some 2023, p_abstract = None, p_pdf_url = None, p_paper_url = None,
       p_doi = None\<rparr>,
      \<lparr>p_title = Some ''Y'', p_authors = Some ''A'', p_conference = Some ''CCS'',
       p_year = Some 2023, p_abstract = None, p_pdf_url = None, p_paper_url = None,
       p_doi = None\<rparr>,
      \<lparr>p_title = Some ''X'', p_authors = Some ''B'', p_conference = Some ''CCS'',
       p_year = Some 2023, p_abstract = None, p_pdf_url = None, p_paper_url = None,
       p_doi = None\<rparr>]"]
  by (simp add: deduplicate_papers_def key_of_def)

text \<open>Claim C5. Deduplicating a deduplicated list gives the same list.\<close>

theorem deduplicate_papers_idempotent:
  "deduplicate_papers (deduplicate_papers ps) = deduplicate_papers ps"
  by (rule deduplicate_papers_fixed) (rule deduplicate_papers_distinct)

end
